theory Spec2Isabelle
  imports Complex_Main "HOL-Library.Sublist"
begin

section \<open>Data model (types.ts)\<close>

text \<open>
  The string unions of \<^verbatim>\<open>types.ts\<close> become datatypes. The member \<^verbatim>\<open>'All'\<close> of
  \<^verbatim>\<open>Continent\<close> is written \<open>AllContinents\<close>, because \<open>All\<close> is the universal quantifier
  of HOL. The filter's unions \<^verbatim>\<open>Difficulty | 'Mixed'\<close> and \<^verbatim>\<open>CountryType | 'All'\<close> wrap
  the underlying enum in a constructor and add the extra member.
\<close>

datatype Continent = Africa | Americas | Asia | Europe | Oceania | AllContinents

datatype Difficulty = Easy | Normal | Hard

datatype CountryType = Sovereign | Territory

datatype DifficultyFilter = Tier Difficulty | Mixed

datatype TypeFilter = Kind CountryType | AllTypes

text \<open>
  JavaScript strings are modelled as \<^typ>\<open>string\<close>; a character outside ASCII stands as
  its UTF-8 bytes. Numbers that hold coordinates are reals.
\<close>

record Country =
  name :: string
  code :: string
  capital :: string
  lat :: real
  lng :: real
  continent :: Continent
  difficulty :: Difficulty
  ctype :: CountryType

record GameState =
  date :: string
  guesses :: "string list"
  isFinished :: bool
  won :: bool

record GameFilter =
  filter_continent :: Continent
  filter_difficulty :: DifficultyFilter
  filter_type :: TypeFilter

section \<open>Round state machine (handleGuess)\<close>

text \<open>
  Modelled from the spec: the constant \<^verbatim>\<open>MAX_GUESSES\<close> of \<^verbatim>\<open>./constants\<close>, which is
  not among the source files; the spec fixes the attempt budget at 6.
\<close>

definition MAX_GUESSES :: nat where
  "MAX_GUESSES = 6"

text \<open>
  \<^verbatim>\<open>String.prototype.toLowerCase\<close> is a library function of the host; the functions
  that call it take it as the parameter \<open>toLowerCase\<close>, so that every general theorem
  holds for whatever lower-casing the engine implements. \<open>asciiLower\<close> is the
  instance used to evaluate concrete inputs: it agrees with the engine on ASCII text.
\<close>

definition lowerChar :: "char \<Rightarrow> char" where
  "lowerChar c =
     (if (65::nat) \<le> of_char c \<and> of_char c \<le> (90::nat)
      then char_of (of_char c + (32::nat)) else c)"

definition asciiLower :: "string \<Rightarrow> string" where
  "asciiLower s = map lowerChar s"

text \<open>
  The fresh round state that the component builds for a new day and for a new
  infinite-mode round.
\<close>

definition freshState :: "string \<Rightarrow> GameState" where
  "freshState d = \<lparr>date = d, guesses = [], isFinished = False, won = False\<rparr>"

text \<open>
  \<^verbatim>\<open>handleGuess\<close> closes over \<^verbatim>\<open>activeState\<close> and \<^verbatim>\<open>activeCountry\<close>; they are
  arguments here, and the result is the round state after the call: the value handed
  to \<^verbatim>\<open>setInfiniteState\<close> or \<^verbatim>\<open>setDailyState\<close>, or the state as it was when the
  function returns early.
\<close>

definition handleGuess ::
  "(string \<Rightarrow> string) \<Rightarrow> Country \<Rightarrow> GameState \<Rightarrow> string \<Rightarrow> GameState" where
  "handleGuess toLowerCase activeCountry activeState countryName =
     (if isFinished activeState then activeState
      else
        let isCorrect = (toLowerCase countryName = toLowerCase (name activeCountry));
            newGuesses = guesses activeState @ [countryName];
            isGameOver = (isCorrect \<or> length newGuesses \<ge> MAX_GUESSES)
        in activeState\<lparr>guesses := newGuesses, isFinished := isGameOver, won := isCorrect\<rparr>)"

text \<open>A round: the guesses of a list submitted one after the other.\<close>

definition playRound ::
  "(string \<Rightarrow> string) \<Rightarrow> Country \<Rightarrow> GameState \<Rightarrow> string list \<Rightarrow> GameState" where
  "playRound toLowerCase activeCountry st gs =
     foldl (handleGuess toLowerCase activeCountry) st gs"

text \<open>Sample records of the reference data, for concrete evaluation.\<close>

definition france :: Country where
  "france = \<lparr>name = ''France'', code = ''FR'', capital = ''Paris'', lat = 46, lng = 2,
     continent = Europe, difficulty = Easy, ctype = Sovereign\<rparr>"

definition gibraltar :: Country where
  "gibraltar = \<lparr>name = ''Gibraltar'', code = ''GI'', capital = ''Gibraltar'', lat = 36,
     lng = - 5, continent = Europe, difficulty = Hard, ctype = Territory\<rparr>"

definition japan :: Country where
  "japan = \<lparr>name = ''Japan'', code = ''JP'', capital = ''Tokyo'', lat = 36, lng = 138,
     continent = Asia, difficulty = Easy, ctype = Sovereign\<rparr>"

definition sampleCountries :: "Country list" where
  "sampleCountries = [france, gibraltar, japan]"

section \<open>Day index (getDayNumber)\<close>

text \<open>
  \<^verbatim>\<open>getLondonDateString\<close> reads the clock and formats today's London date in the
  locale \<^verbatim>\<open>en-CA\<close>, that is as \<^verbatim>\<open>YYYY-MM-DD\<close>. Its result is the explicit argument
  \<open>londonDate\<close> of every function below that reads the clock. \<open>CalendarDate\<close> and
  \<open>isoDateString\<close> describe the strings it produces.
\<close>

record CalendarDate =
  year :: nat
  month :: nat
  day :: nat

definition inLeapYear :: "nat \<Rightarrow> bool" where
  "inLeapYear y = ((y mod 4 = 0 \<and> y mod 100 \<noteq> 0) \<or> y mod 400 = 0)"

definition daysInMonth :: "nat \<Rightarrow> nat \<Rightarrow> nat" where
  "daysInMonth y m =
     (if m = 2 then (if inLeapYear y then 29 else 28)
      else if m = 4 \<or> m = 6 \<or> m = 9 \<or> m = 11 then 30 else 31)"

definition validDate :: "CalendarDate \<Rightarrow> bool" where
  "validDate d =
     (year d \<le> 9999 \<and> 1 \<le> month d \<and> month d \<le> 12 \<and>
      1 \<le> day d \<and> day d \<le> daysInMonth (year d) (month d))"

definition digitChar :: "nat \<Rightarrow> char" where
  "digitChar n = char_of (48 + n)"

definition digitVal :: "char \<Rightarrow> nat option" where
  "digitVal c =
     (if (48::nat) \<le> of_char c \<and> of_char c \<le> (57::nat) then Some (of_char c - 48) else None)"

fun parseDigits :: "nat \<Rightarrow> string \<Rightarrow> nat option" where
  "parseDigits acc [] = Some acc"
| "parseDigits acc (c # cs) =
     (case digitVal c of None \<Rightarrow> None | Some v \<Rightarrow> parseDigits (10 * acc + v) cs)"

definition pad2 :: "nat \<Rightarrow> string" where
  "pad2 n = [digitChar (n div 10 mod 10), digitChar (n mod 10)]"

definition pad4 :: "nat \<Rightarrow> string" where
  "pad4 n = [digitChar (n div 1000 mod 10), digitChar (n div 100 mod 10),
             digitChar (n div 10 mod 10), digitChar (n mod 10)]"

definition isoDateString :: "CalendarDate \<Rightarrow> string" where
  "isoDateString d = pad4 (year d) @ ''-'' @ pad2 (month d) @ ''-'' @ pad2 (day d)"

text \<open>The calendar day that follows a date.\<close>

definition nextDay :: "CalendarDate \<Rightarrow> CalendarDate" where
  "nextDay d =
     (if day d < daysInMonth (year d) (month d) then d\<lparr>day := day d + 1\<rparr>
      else if month d < 12 then d\<lparr>month := month d + 1, day := 1\<rparr>
      else \<lparr>year = year d + 1, month = 1, day = 1\<rparr>)"

text \<open>
  The day arithmetic of the language standard's \<^verbatim>\<open>Date\<close>: \<open>DayFromYear\<close> is the day
  number of 1 January of a year, counted from 1 January 1970; \<open>MakeDay\<close> adds the days
  of the months before and the day of the month.
\<close>

definition DayFromYear :: "int \<Rightarrow> int" where
  "DayFromYear y =
     365 * (y - 1970) + (y - 1969) div 4 - (y - 1901) div 100 + (y - 1601) div 400"

definition monthStart :: "nat \<Rightarrow> nat \<Rightarrow> nat" where
  "monthStart y m = sum_list (map (daysInMonth y) [1..<m])"

definition MakeDay :: "CalendarDate \<Rightarrow> int" where
  "MakeDay d = DayFromYear (int (year d)) + int (monthStart (year d) (month d)) + int (day d) - 1"

definition MS_PER_DAY :: int where
  "MS_PER_DAY = 24 * 60 * 60 * 1000"

text \<open>
  \<^verbatim>\<open>new Date(s).getTime()\<close> for a date-only string: midnight UTC of that date, in
  milliseconds since 1 January 1970. \<open>None\<close> stands for every string that is not
  \<^verbatim>\<open>YYYY-MM-DD\<close> with a date of the calendar; the formatter produces no such string.
  All values are integers far below \<open>2 ^ 53\<close>, so the arithmetic on doubles is exact.
\<close>

definition Date_getTime :: "string \<Rightarrow> int option" where
  "Date_getTime s =
     (if length s = 10 \<and> s ! 4 = CHR ''-'' \<and> s ! 7 = CHR ''-'' then
        (case (parseDigits 0 (take 4 s), parseDigits 0 (take 2 (drop 5 s)),
               parseDigits 0 (drop 8 s)) of
           (Some y, Some m, Some d) \<Rightarrow>
             (if validDate \<lparr>year = y, month = m, day = d\<rparr>
              then Some (MakeDay \<lparr>year = y, month = m, day = d\<rparr> * MS_PER_DAY) else None)
         | _ \<Rightarrow> None)
      else None)"

definition getDayNumber :: "string \<Rightarrow> int option" where
  "getDayNumber londonDate =
     (case (Date_getTime ''2024-01-01'', Date_getTime londonDate) of
        (Some start, Some current) \<Rightarrow>
          (let diffTime = \<bar>current - start\<bar> in Some (diffTime div MS_PER_DAY))
      | _ \<Rightarrow> None)"

text \<open>The epoch of the day count, the date of the literal \<^verbatim>\<open>'2024-01-01'\<close>.\<close>

definition epochDate :: CalendarDate where
  "epochDate = \<lparr>year = 2024, month = 1, day = 1\<rparr>"

section \<open>Puzzle selection (getDailyCountry, getRandomCountryFiltered)\<close>

text \<open>
  The table \<^verbatim>\<open>COUNTRIES\<close> of \<^verbatim>\<open>./constants\<close> is not among the source files; the
  functions that read it take it as their first argument. An array read outside the
  bounds yields \<^verbatim>\<open>undefined\<close>, here \<open>None\<close>.
\<close>

definition arrayGet :: "'a list \<Rightarrow> int \<Rightarrow> 'a option" where
  "arrayGet xs i = (if 0 \<le> i \<and> i < int (length xs) then Some (xs ! nat i) else None)"

text \<open>
  The day number is never negative, so the remainder \<^verbatim>\<open>%\<close> is \<open>mod\<close>. With an empty
  pool the index is \<^verbatim>\<open>NaN\<close> and the read yields \<^verbatim>\<open>undefined\<close>, as it does when the
  day number itself is \<^verbatim>\<open>NaN\<close>.
\<close>

definition getDailyCountry :: "Country list \<Rightarrow> string \<Rightarrow> Country option" where
  "getDailyCountry COUNTRIES londonDate =
     (case getDayNumber londonDate of
        None \<Rightarrow> None
      | Some dayNumber \<Rightarrow>
          (let sovereignPool = filter (\<lambda>c. ctype c = Sovereign) COUNTRIES in
           if length sovereignPool = 0 then None
           else arrayGet sovereignPool (dayNumber mod int (length sovereignPool))))"

text \<open>
  The pool of \<^verbatim>\<open>getRandomCountryFiltered\<close> after its four conditional filters. The
  optional \<^verbatim>\<open>excludeCode\<close> is tested for truthiness: an absent and an empty string both
  skip the last filter.
\<close>

definition filteredPool :: "Country list \<Rightarrow> GameFilter \<Rightarrow> string option \<Rightarrow> Country list" where
  "filteredPool COUNTRIES flt excludeCode =
     (let pool = COUNTRIES;
          pool = (if filter_continent flt \<noteq> AllContinents
                  then filter (\<lambda>c. continent c = filter_continent flt) pool else pool);
          pool = (if filter_difficulty flt \<noteq> Mixed
                  then filter (\<lambda>c. Tier (difficulty c) = filter_difficulty flt) pool else pool);
          pool = (if filter_type flt \<noteq> AllTypes
                  then filter (\<lambda>c. Kind (ctype c) = filter_type flt) pool else pool);
          pool = (case excludeCode of
                    None \<Rightarrow> pool
                  | Some e \<Rightarrow> if e \<noteq> [] then filter (\<lambda>c. code c \<noteq> e) pool else pool)
      in pool)"

text \<open>
  \<open>random\<close> is the value of \<^verbatim>\<open>Math.random()\<close>, a number in \<open>[0, 1)\<close>, made an explicit
  argument.
\<close>

definition getRandomCountryFiltered ::
  "Country list \<Rightarrow> real \<Rightarrow> GameFilter \<Rightarrow> string option \<Rightarrow> Country option" where
  "getRandomCountryFiltered COUNTRIES random flt excludeCode =
     (let pool = filteredPool COUNTRIES flt excludeCode in
      if length pool = 0
      then arrayGet COUNTRIES \<lfloor>random * real (length COUNTRIES)\<rfloor>
      else arrayGet pool \<lfloor>random * real (length pool)\<rfloor>)"

text \<open>
  The spec's reading of the filters, for comparison with \<open>filteredPool\<close>: an entry is
  kept when it satisfies every active selector and does not carry the excluded code.
\<close>

definition matchesFilter :: "GameFilter \<Rightarrow> Country \<Rightarrow> bool" where
  "matchesFilter flt c =
     ((filter_continent flt = AllContinents \<or> continent c = filter_continent flt) \<and>
      (filter_difficulty flt = Mixed \<or> filter_difficulty flt = Tier (difficulty c)) \<and>
      (filter_type flt = AllTypes \<or> filter_type flt = Kind (ctype c)))"

definition notExcluded :: "string option \<Rightarrow> Country \<Rightarrow> bool" where
  "notExcluded excludeCode c = (case excludeCode of None \<Rightarrow> True | Some e \<Rightarrow> code c \<noteq> e)"

section \<open>Share text (generateShareGrid)\<close>

fun natToString :: "nat \<Rightarrow> string" where
  "natToString n =
     (if n < 10 then [digitChar n] else natToString (n div 10) @ [digitChar (n mod 10)])"

declare natToString.simps [simp del]

text \<open>A number spliced into a template literal; \<open>None\<close> is \<^verbatim>\<open>NaN\<close>.\<close>

definition numberToString :: "int option \<Rightarrow> string" where
  "numberToString v =
     (case v of
        None \<Rightarrow> ''NaN''
      | Some n \<Rightarrow> if n < 0 then ''-'' @ natToString (nat (- n)) else natToString (nat n))"

text \<open>The characters outside ASCII of the templates, as UTF-8.\<close>

definition newline :: string where "newline = [CHR 0x0A]"
definition globe :: string where "globe = [CHR 0xF0, CHR 0x9F, CHR 0x8C, CHR 0x8D]"
definition pin :: string where "pin = [CHR 0xF0, CHR 0x9F, CHR 0x93, CHR 0x8D]"
definition rainbow :: string where "rainbow = [CHR 0xF0, CHR 0x9F, CHR 0x8C, CHR 0x88]"
definition trophy :: string where "trophy = [CHR 0xF0, CHR 0x9F, CHR 0x8F, CHR 0x86]"
definition sparkles :: string where "sparkles = [CHR 0xE2, CHR 0x9C, CHR 0xA8]"
definition sweatSmile :: string where "sweatSmile = [CHR 0xF0, CHR 0x9F, CHR 0x98, CHR 0x85]"
definition dash :: string where "dash = [CHR 0xF0, CHR 0x9F, CHR 0x92, CHR 0xA8]"
definition cloud :: string where "cloud = [CHR 0xE2, CHR 0x98, CHR 0x81, CHR 0xEF, CHR 0xB8, CHR 0x8F]"
definition greenSquare :: string where "greenSquare = [CHR 0xF0, CHR 0x9F, CHR 0x9F, CHR 0xA9]"
definition redSquare :: string where "redSquare = [CHR 0xF0, CHR 0x9F, CHR 0x9F, CHR 0xA5]"
definition worldMap :: string where
  "worldMap = [CHR 0xF0, CHR 0x9F, CHR 0x97, CHR 0xBA, CHR 0xEF, CHR 0xB8, CHR 0x8F]"
definition highVoltage :: string where "highVoltage = [CHR 0xE2, CHR 0x9A, CHR 0xA1]"
definition rocket :: string where "rocket = [CHR 0xF0, CHR 0x9F, CHR 0x9A, CHR 0x80]"

definition greenRow :: string where
  "greenRow = greenSquare @ greenSquare @ greenSquare @ greenSquare @ greenSquare @ newline"

definition redRow :: string where
  "redRow = redSquare @ redSquare @ redSquare @ redSquare @ redSquare @ newline"

definition shareFooter :: string where
  "shareFooter = newline @ ''Come play this game too! '' @ worldMap @ highVoltage @ rocket
     @ newline @ ''https://geoshapely.netlify.app/''"

text \<open>
  \<^verbatim>\<open>generateShareGrid\<close> reads the day number from the clock (argument \<open>londonDate\<close>);
  the loop \<^verbatim>\<open>forEach\<close> that appends one row per guess is a left fold over the message.
  The parameter \<^verbatim>\<open>guesses\<close> is written \<open>guesses'\<close>, the plain name being the field of
  \<open>GameState\<close>.
\<close>

definition generateShareGrid ::
  "(string \<Rightarrow> string) \<Rightarrow> string \<Rightarrow> string list \<Rightarrow> string \<Rightarrow> bool \<Rightarrow> bool \<Rightarrow> string" where
  "generateShareGrid toLowerCase londonDate guesses' correctCountry isWin isInfinite =
     (let dayNumber = getDayNumber londonDate;
          count = (if isWin then natToString (length guesses') else ''X'');
          message = (if isInfinite
                     then globe @ '' Shapely (Infinite Mode) '' @ pin @ newline
                     else globe @ '' Shapely No. '' @ numberToString dayNumber @ '' '' @ pin
                            @ newline);
          message = (if isWin
                     then message @ ''Wow! '' @ rainbow @ '' I guessed the right country in ''
                            @ count @ ''/6 tries! '' @ trophy @ sparkles @ newline @ newline
                     else message @ ''Ouch! '' @ sweatSmile @ '' Today'' @ [CHR 0x27]
                            @ ''s shape was a real mystery! X/6 '' @ dash @ cloud
                            @ newline @ newline);
          message = foldl (\<lambda>message guess.
                       if toLowerCase guess = toLowerCase correctCountry
                       then message @ greenRow else message @ redRow) message guesses';
          message = message @ shareFooter
      in message)"

text \<open>The lines of a text: its pieces between the newline characters.\<close>

fun splitLines :: "string \<Rightarrow> string list" where
  "splitLines [] = [[]]"
| "splitLines (c # cs) =
     (if c = CHR 0x0A then [] # splitLines cs
      else (case splitLines cs of l # ls \<Rightarrow> (c # l) # ls | [] \<Rightarrow> [[c]]))"

section \<open>Geo helpers (getDirectionArrow)\<close>







section \<open>Theorems: the round state machine\<close>

lemma asciiLower_samples:
  "asciiLower ''France'' = ''france''"
  "asciiLower ''Spain'' = ''spain''"
  "asciiLower ''Germany'' = ''germany''"
  "asciiLower ''Italy'' = ''italy''"
  "asciiLower ''Brazil'' = ''brazil''"
  "asciiLower ''Japan'' = ''japan''"
  "asciiLower ''Egypt'' = ''egypt''"
  by code_simp+

lemma handleGuess_finished:
  "isFinished st \<Longrightarrow> handleGuess lc c st g = st"
  by (simp add: handleGuess_def)

lemma handleGuess_open:
  "\<not> isFinished st \<Longrightarrow>
   handleGuess lc c st g =
     st\<lparr>guesses := guesses st @ [g],
        isFinished := (lc g = lc (name c) \<or> MAX_GUESSES \<le> Suc (length (guesses st))),
        won := (lc g = lc (name c))\<rparr>"
  by (simp add: handleGuess_def Let_def)

lemma playRound_Nil: "playRound lc c st [] = st"
  by (simp add: playRound_def)

lemma playRound_Cons:
  "playRound lc c st (g # gs) = playRound lc c (handleGuess lc c st g) gs"
  by (simp add: playRound_def)

lemma playRound_won_sample:
  "playRound asciiLower france (freshState d) [''Spain'', ''Germany'', ''France''] =
     \<lparr>date = d, guesses = [''Spain'', ''Germany'', ''France''], isFinished = True, won = True\<rparr>"
  by (simp add: playRound_Cons playRound_Nil handleGuess_def Let_def freshState_def france_def
      asciiLower_samples MAX_GUESSES_def)

lemma playRound_lost_sample:
  "playRound asciiLower france (freshState d)
       [''Spain'', ''Germany'', ''Italy'', ''Brazil'', ''Japan'', ''Egypt''] =
     \<lparr>date = d, guesses = [''Spain'', ''Germany'', ''Italy'', ''Brazil'', ''Japan'', ''Egypt''],
      isFinished = True, won = False\<rparr>"
  by (simp add: playRound_Cons playRound_Nil handleGuess_def Let_def freshState_def france_def
      asciiLower_samples MAX_GUESSES_def)

text \<open>
  Claim C1. On a round that is not finished, \<open>handleGuess\<close> appends the guess to the
  guess sequence and compares the lower-cased guess with the lower-cased name of the
  target for equality. On a match the round is finished and won; without a match it is
  finished and lost once the sequence has reached length 6, and stays open (not
  finished, not won) below that. With target France, the guesses Spain, Germany, France
  end in a won round of 3 guesses, and six guesses that miss end in a lost round of 6
  guesses.
\<close>

theorem handleGuess_outcome:
  "(\<not> isFinished st \<longrightarrow>
      guesses (handleGuess lc c st g) = guesses st @ [g] \<and>
      (lc g = lc (name c) \<longrightarrow>
         isFinished (handleGuess lc c st g) \<and> won (handleGuess lc c st g)) \<and>
      (lc g \<noteq> lc (name c) \<and> 6 \<le> length (guesses (handleGuess lc c st g)) \<longrightarrow>
         isFinished (handleGuess lc c st g) \<and> \<not> won (handleGuess lc c st g)) \<and>
      (lc g \<noteq> lc (name c) \<and> length (guesses (handleGuess lc c st g)) < 6 \<longrightarrow>
         \<not> isFinished (handleGuess lc c st g) \<and> \<not> won (handleGuess lc c st g))) \<and>
   playRound asciiLower france (freshState d) [''Spain'', ''Germany'', ''France''] =
     \<lparr>date = d, guesses = [''Spain'', ''Germany'', ''France''], isFinished = True, won = True\<rparr> \<and>
   playRound asciiLower france (freshState d)
       [''Spain'', ''Germany'', ''Italy'', ''Brazil'', ''Japan'', ''Egypt''] =
     \<lparr>date = d, guesses = [''Spain'', ''Germany'', ''Italy'', ''Brazil'', ''Japan'', ''Egypt''],
      isFinished = True, won = False\<rparr>"
proof (intro conjI impI)
  assume open_round: "\<not> isFinished st"
  note step = handleGuess_open [OF open_round, of lc c g]
  show "guesses (handleGuess lc c st g) = guesses st @ [g]"
    by (simp add: step)
  {
    assume "lc g = lc (name c)"
    then show "isFinished (handleGuess lc c st g)" and "won (handleGuess lc c st g)"
      by (simp_all add: step)
  }
  {
    assume "lc g \<noteq> lc (name c) \<and> 6 \<le> length (guesses (handleGuess lc c st g))"
    then show "isFinished (handleGuess lc c st g)" and "\<not> won (handleGuess lc c st g)"
      by (simp_all add: step MAX_GUESSES_def)
  }
  {
    assume "lc g \<noteq> lc (name c) \<and> length (guesses (handleGuess lc c st g)) < 6"
    then show "\<not> isFinished (handleGuess lc c st g)" and "\<not> won (handleGuess lc c st g)"
      by (simp_all add: step MAX_GUESSES_def)
  }
qed (rule playRound_won_sample playRound_lost_sample)+

theorem handleGuess_outcome_witness:
  "\<not> isFinished (freshState ''2024-02-12'') \<and>
   handleGuess asciiLower france (freshState ''2024-02-12'') ''FRANCE'' =
     \<lparr>date = ''2024-02-12'', guesses = [''FRANCE''], isFinished = True, won = True\<rparr> \<and>
   handleGuess asciiLower france (freshState ''2024-02-12'') ''Spain'' =
     \<lparr>date = ''2024-02-12'', guesses = [''Spain''], isFinished = False, won = False\<rparr>"
proof -
  have open_round: "\<not> isFinished (freshState ''2024-02-12'')"
    by (simp add: freshState_def)
  have hit: "asciiLower ''FRANCE'' = asciiLower (name france)"
    by code_simp
  have miss: "asciiLower ''Spain'' \<noteq> asciiLower (name france)"
    by code_simp
  have d: "date (handleGuess asciiLower france (freshState ''2024-02-12'') g) = ''2024-02-12''" for g
    by (simp add: handleGuess_def Let_def freshState_def)
  have len: "length (guesses (freshState ''2024-02-12'') @ [''Spain'']) < 6"
    by (simp add: freshState_def)
  from handleGuess_outcome [where st = "freshState ''2024-02-12''" and lc = asciiLower
      and g = "''FRANCE''" and c = france]
    open_round hit
  have w: "guesses (handleGuess asciiLower france (freshState ''2024-02-12'') ''FRANCE'') = [''FRANCE'']
      \<and> isFinished (handleGuess asciiLower france (freshState ''2024-02-12'') ''FRANCE'')
      \<and> won (handleGuess asciiLower france (freshState ''2024-02-12'') ''FRANCE'')"
    by (simp add: freshState_def)
  from handleGuess_outcome [where st = "freshState ''2024-02-12''" and lc = asciiLower
      and g = "''Spain''" and c = france]
    open_round miss len
  have l: "guesses (handleGuess asciiLower france (freshState ''2024-02-12'') ''Spain'') = [''Spain'']
      \<and> \<not> isFinished (handleGuess asciiLower france (freshState ''2024-02-12'') ''Spain'')
      \<and> \<not> won (handleGuess asciiLower france (freshState ''2024-02-12'') ''Spain'')"
    by (simp add: freshState_def)
  show ?thesis
    using open_round w l d [of "''FRANCE''"] d [of "''Spain''"]
    by (auto intro!: GameState.equality)
qed

lemma handleGuess_budget:
  assumes "length (guesses st) \<le> MAX_GUESSES"
    and "\<not> isFinished st \<longrightarrow> length (guesses st) < MAX_GUESSES"
  shows "length (guesses (handleGuess lc c st g)) \<le> MAX_GUESSES"
    and "\<not> isFinished (handleGuess lc c st g) \<longrightarrow>
           length (guesses (handleGuess lc c st g)) < MAX_GUESSES"
  using assms by (cases "isFinished st"; simp add: handleGuess_finished handleGuess_open)+

lemma playRound_budget:
  "length (guesses st) \<le> MAX_GUESSES \<Longrightarrow>
   (\<not> isFinished st \<longrightarrow> length (guesses st) < MAX_GUESSES) \<Longrightarrow>
   length (guesses (playRound lc c st gs)) \<le> MAX_GUESSES \<and>
   (\<not> isFinished (playRound lc c st gs) \<longrightarrow>
      length (guesses (playRound lc c st gs)) < MAX_GUESSES)"
proof (induction gs arbitrary: st)
  case Nil
  then show ?case by (simp add: playRound_Nil)
next
  case (Cons g gs)
  from handleGuess_budget [OF Cons.prems]
  have "length (guesses (handleGuess lc c st g)) \<le> MAX_GUESSES"
    and "\<not> isFinished (handleGuess lc c st g) \<longrightarrow>
           length (guesses (handleGuess lc c st g)) < MAX_GUESSES"
    by blast+
  from Cons.IH [OF this] show ?case
    by (simp add: playRound_Cons)
qed

text \<open>
  Claim C2. Whatever guesses are submitted to a fresh round, the guess sequence never
  grows beyond 6 entries; and on every state whose finished flag is set, \<open>handleGuess\<close>
  returns the state as it is (it returns early, and raises nothing).
\<close>

theorem handleGuess_bounded_idempotent:
  "length (guesses (playRound lc c (freshState d) gs)) \<le> 6 \<and>
   (isFinished st \<longrightarrow> handleGuess lc c st g = st)"
proof -
  have "length (guesses (freshState d)) \<le> MAX_GUESSES"
    and "\<not> isFinished (freshState d) \<longrightarrow> length (guesses (freshState d)) < MAX_GUESSES"
    by (simp_all add: freshState_def MAX_GUESSES_def)
  from playRound_budget [OF this, of lc c gs]
  have "length (guesses (playRound lc c (freshState d) gs)) \<le> 6"
    by (simp add: MAX_GUESSES_def)
  then show ?thesis
    by (simp add: handleGuess_finished)
qed

theorem handleGuess_bounded_idempotent_witness:
  "length (guesses (playRound asciiLower france (freshState ''infinite'')
      [''Spain'', ''Germany'', ''Italy'', ''Brazil'', ''Japan'', ''Egypt'', ''Peru'', ''France''])) = 6 \<and>
   isFinished (playRound asciiLower france (freshState ''infinite'') [''fRANCE'']) \<and>
   handleGuess asciiLower france
       (playRound asciiLower france (freshState ''infinite'') [''fRANCE'']) ''Spain'' =
     playRound asciiLower france (freshState ''infinite'') [''fRANCE'']"
proof -
  have fin: "isFinished (playRound asciiLower france (freshState ''infinite'') [''fRANCE''])"
    by code_simp
  have len: "6 \<le> length (guesses (playRound asciiLower france (freshState ''infinite'')
      [''Spain'', ''Germany'', ''Italy'', ''Brazil'', ''Japan'', ''Egypt'', ''Peru'', ''France'']))"
    by code_simp
  from handleGuess_bounded_idempotent [where lc = asciiLower and c = france
      and d = "''infinite''"
      and gs = "[''Spain'', ''Germany'', ''Italy'', ''Brazil'', ''Japan'', ''Egypt'', ''Peru'', ''France'']"
      and st = "playRound asciiLower france (freshState ''infinite'') [''fRANCE'']"
      and g = "''Spain''"]
  show ?thesis using fin len by simp
qed

text \<open>
  Claim C10. On a round that is not finished, \<open>handleGuess\<close> leaves the date key as it
  is: the state it returns is the old state with new values for the guess sequence,
  the finished flag and the won flag only.
\<close>

theorem handleGuess_keeps_date:
  "\<not> isFinished st \<Longrightarrow>
   date (handleGuess lc c st g) = date st \<and>
   handleGuess lc c st g =
     st\<lparr>guesses := guesses (handleGuess lc c st g),
        isFinished := isFinished (handleGuess lc c st g),
        won := won (handleGuess lc c st g)\<rparr>"
  by (simp add: handleGuess_open)

theorem handleGuess_keeps_date_witness:
  "\<not> isFinished (freshState ''2024-02-12'') \<and>
   date (handleGuess asciiLower france (freshState ''2024-02-12'') ''Spain'') = ''2024-02-12''"
proof -
  have open_round: "\<not> isFinished (freshState ''2024-02-12'')"
    by (simp add: freshState_def)
  from handleGuess_keeps_date [OF open_round, of asciiLower france "''Spain''"] open_round
  show ?thesis by (simp add: freshState_def)
qed

section \<open>Theorems: the day index\<close>

lemma digitVal_digitChar: "n < 10 \<Longrightarrow> digitVal (digitChar n) = Some n"
  by (simp add: digitVal_def digitChar_def)

lemma parseDigits_pad2: "n \<le> 99 \<Longrightarrow> parseDigits 0 (pad2 n) = Some n"
  by (simp add: pad2_def digitVal_digitChar)

lemma decimal4:
  fixes n :: nat
  assumes "n \<le> 9999"
  shows "10 * (10 * (10 * (n div 1000 mod 10) + n div 100 mod 10) + n div 10 mod 10)
      + n mod 10 = n"
proof -
  have h: "n div 100 = n div 10 div 10" "n div 1000 = n div 10 div 10 div 10"
    using div_mult2_eq [of n 10 10] div_mult2_eq [of n 10 100] div_mult2_eq [of "n div 10" 10 10]
    by simp_all
  from assms have top: "n div 1000 mod 10 = n div 1000"
    by simp
  have "10 * (n div 10) + n mod 10 = n"
    "10 * (n div 10 div 10) + n div 10 mod 10 = n div 10"
    "10 * (n div 10 div 10 div 10) + n div 10 div 10 mod 10 = n div 10 div 10"
    by (rule mult_div_mod_eq)+
  then show ?thesis
    unfolding top unfolding h by simp
qed

lemma parseDigits_pad4: "n \<le> 9999 \<Longrightarrow> parseDigits 0 (pad4 n) = Some n"
  using decimal4 [of n] by (simp add: pad4_def digitVal_digitChar)

lemma daysInMonth_le: "daysInMonth y m \<le> 31"
  by (simp add: daysInMonth_def)

lemma Date_getTime_isoDateString:
  assumes "validDate d"
  shows "Date_getTime (isoDateString d) = Some (MakeDay d * MS_PER_DAY)"
proof -
  from assms have y: "year d \<le> 9999" and m: "month d \<le> 99" and dd: "day d \<le> 99"
    using daysInMonth_le [of "year d" "month d"] by (simp_all add: validDate_def)
  have shape: "length (isoDateString d) = 10" "isoDateString d ! 4 = CHR ''-''"
    "isoDateString d ! 7 = CHR ''-''"
    by (simp_all add: isoDateString_def pad4_def pad2_def)
  have parts: "take 4 (isoDateString d) = pad4 (year d)"
    "take 2 (drop 5 (isoDateString d)) = pad2 (month d)"
    "drop 8 (isoDateString d) = pad2 (day d)"
    by (simp_all add: isoDateString_def pad4_def pad2_def)
  have whole: "\<lparr>year = year d, month = month d, day = day d\<rparr> = d"
    by simp
  show ?thesis
    using assms
    by (simp add: Date_getTime_def shape parts parseDigits_pad4 [OF y] parseDigits_pad2 [OF m]
        parseDigits_pad2 [OF dd] whole)
qed

lemma int_div_succ:
  fixes a k :: int
  assumes "0 < k"
  shows "(a + 1) div k = a div k + (if (a + 1) mod k = 0 then 1 else 0)"
proof -
  define q r where "q = a div k" and "r = a mod k"
  have a: "a = k * q + r" and r: "0 \<le> r" "r < k"
    using assms by (simp_all add: q_def r_def)
  show ?thesis
  proof (cases "r + 1 = k")
    case True
    with a have eq: "a + 1 = k * (q + 1) + 0"
      by (simp add: algebra_simps)
    from int_div_pos_eq [OF eq] int_mod_pos_eq [OF eq] assms
    show ?thesis by (simp add: q_def)
  next
    case False
    with r have r': "0 \<le> r + 1" "r + 1 < k" by simp_all
    from a have eq: "a + 1 = k * q + (r + 1)" by simp
    from int_div_pos_eq [OF eq r'] int_mod_pos_eq [OF eq r'] r
    show ?thesis by (simp add: q_def)
  qed
qed

lemma DayFromYear_succ:
  "DayFromYear (z + 1) =
     DayFromYear z + 365 + (if z mod 4 = 0 then 1 else 0) - (if z mod 100 = 0 then 1 else 0)
       + (if z mod 400 = 0 then 1 else 0)"
proof -
  have "z - 1969 + 1 = z + 4 * (- 492)" "z - 1901 + 1 = z + 100 * (- 19)"
    "z - 1601 + 1 = z + 400 * (- 4)"
    by simp_all
  then have m: "(z - 1969 + 1) mod 4 = z mod 4" "(z - 1901 + 1) mod 100 = z mod 100"
    "(z - 1601 + 1) mod 400 = z mod 400"
    by (simp_all only: mod_mult_self2)
  have pos: "0 < (4::int)" "0 < (100::int)" "0 < (400::int)"
    by simp_all
  note steps = int_div_succ [OF pos(1), of "z - 1969", unfolded m]
    int_div_succ [OF pos(2), of "z - 1901", unfolded m]
    int_div_succ [OF pos(3), of "z - 1601", unfolded m]
  have shift: "z + 1 - 1969 = z - 1969 + 1" "z + 1 - 1901 = z - 1901 + 1"
    "z + 1 - 1601 = z - 1601 + 1" "z + 1 - 1970 = z - 1970 + 1"
    by simp_all
  define a b c where "a = (z - 1969) div 4" and "b = (z - 1901) div 100"
    and "c = (z - 1601) div 400"
  define i j k :: int where "i = (if z mod 4 = 0 then 1 else 0)"
    and "j = (if z mod 100 = 0 then 1 else 0)" and "k = (if z mod 400 = 0 then 1 else 0)"
  have "DayFromYear (z + 1) = 365 * (z - 1970 + 1) + (a + i) - (b + j) + (c + k)"
    unfolding DayFromYear_def shift steps a_def b_def c_def i_def j_def k_def ..
  moreover have "DayFromYear z = 365 * (z - 1970) + a - b + c"
    unfolding DayFromYear_def a_def b_def c_def ..
  ultimately have "DayFromYear (z + 1) = DayFromYear z + 365 + i - j + k"
    by simp
  then show ?thesis
    unfolding i_def j_def k_def .
qed

lemma leap_divisors:
  fixes y :: nat
  shows "y mod 400 = 0 \<Longrightarrow> y mod 100 = 0" and "y mod 100 = 0 \<Longrightarrow> y mod 4 = 0"
proof -
  have "y mod 400 mod 100 = y mod 100" "y mod 100 mod 4 = y mod 4"
    by (rule mod_mod_cancel; simp)+
  then show "y mod 400 = 0 \<Longrightarrow> y mod 100 = 0" and "y mod 100 = 0 \<Longrightarrow> y mod 4 = 0"
    by (metis mod_0)+
qed

lemma int_mod_eq_0: "(int y mod int n = 0) = (y mod n = 0)"
  by (simp only: of_nat_mod [symmetric] of_nat_eq_0_iff)

lemma DayFromYear_Suc:
  "DayFromYear (int (Suc y)) = DayFromYear (int y) + 365 + (if inLeapYear y then 1 else 0)"
proof -
  have c: "(int y mod 4 = 0) = (y mod 4 = 0)" "(int y mod 100 = 0) = (y mod 100 = 0)"
    "(int y mod 400 = 0) = (y mod 400 = 0)"
    using int_mod_eq_0 [of y 4] int_mod_eq_0 [of y 100] int_mod_eq_0 [of y 400] by simp_all
  have s: "int (Suc y) = int y + 1" by simp
  note st = DayFromYear_succ [of "int y", unfolded c]
  consider (quad) "y mod 400 = 0" | (cent) "y mod 400 \<noteq> 0" "y mod 100 = 0"
    | (leap) "y mod 100 \<noteq> 0" "y mod 4 = 0" | (plain) "y mod 4 \<noteq> 0"
    by blast
  then show ?thesis
  proof cases
    case quad
    then have "y mod 100 = 0" by (rule leap_divisors(1))
    then have "y mod 100 = 0" "y mod 4 = 0" by (simp_all add: leap_divisors(2))
    with quad show ?thesis unfolding s st inLeapYear_def by simp
  next
    case cent
    then have "y mod 4 = 0" by (simp add: leap_divisors(2))
    with cent show ?thesis unfolding s st inLeapYear_def by simp
  next
    case leap
    then have "y mod 400 \<noteq> 0" using leap_divisors(1) [of y] by auto
    with leap show ?thesis unfolding s st inLeapYear_def by simp
  next
    case plain
    then have "y mod 100 \<noteq> 0" using leap_divisors(2) [of y] by auto
    then have "y mod 100 \<noteq> 0" "y mod 400 \<noteq> 0" using leap_divisors(1) [of y] by auto
    with plain show ?thesis unfolding s st inLeapYear_def by simp
  qed
qed

lemma monthStart_12: "monthStart y 12 = 334 + (if inLeapYear y then 1 else 0)"
  by (simp add: monthStart_def upt_rec daysInMonth_def)

lemma monthStart_1: "monthStart y 1 = 0" "monthStart y (Suc 0) = 0"
  by (simp_all add: monthStart_def)

lemma monthStart_Suc: "1 \<le> m \<Longrightarrow> monthStart y (Suc m) = monthStart y m + daysInMonth y m"
  by (simp add: monthStart_def)

lemma MakeDay_nextDay:
  assumes "1 \<le> month d" "month d \<le> 12" "1 \<le> day d" "day d \<le> daysInMonth (year d) (month d)"
  shows "MakeDay (nextDay d) = MakeDay d + 1"
proof (cases "day d < daysInMonth (year d) (month d)")
  case True
  then show ?thesis by (simp add: nextDay_def MakeDay_def)
next
  case last: False
  with assms have dd: "day d = daysInMonth (year d) (month d)" by simp
  show ?thesis
  proof (cases "month d < 12")
    case True
    with last assms(1) show ?thesis
      by (simp add: nextDay_def MakeDay_def dd monthStart_Suc)
  next
    case False
    with assms have m: "month d = 12" by simp
    then have "day d = 31" by (simp add: dd daysInMonth_def)
    with last m show ?thesis
      using DayFromYear_Suc [of "year d"]
      by (simp add: nextDay_def MakeDay_def monthStart_12 monthStart_1)
  qed
qed

lemma epoch_time: "Date_getTime ''2024-01-01'' = Some (19723 * MS_PER_DAY)"
  by code_simp

lemma day_difference: "\<bar>a * MS_PER_DAY - 19723 * MS_PER_DAY\<bar> div MS_PER_DAY = \<bar>a - 19723\<bar>"
proof -
  have "a * MS_PER_DAY - 19723 * MS_PER_DAY = (a - 19723) * MS_PER_DAY"
    by (simp add: algebra_simps)
  moreover have "0 < MS_PER_DAY"
    by (simp add: MS_PER_DAY_def)
  ultimately show ?thesis
    by (simp add: abs_mult)
qed

lemma getDayNumber_isoDateString:
  "validDate d \<Longrightarrow> getDayNumber (isoDateString d) = Some \<bar>MakeDay d - 19723\<bar>"
  by (simp add: getDayNumber_def epoch_time Date_getTime_isoDateString day_difference)

lemma DayFromYear_from_epoch: "2024 \<le> y \<Longrightarrow> 19723 \<le> DayFromYear (int y)"
proof (induction y rule: dec_induct)
  case base
  show ?case by (simp add: DayFromYear_def)
next
  case (step n)
  then show ?case by (simp only: DayFromYear_Suc split: if_splits) simp
qed

lemma MakeDay_from_epoch:
  assumes "2024 \<le> year d" "1 \<le> day d"
  shows "19723 \<le> MakeDay d"
  using DayFromYear_from_epoch [OF assms(1)] assms(2) by (simp add: MakeDay_def)

lemma nextDay_valid:
  assumes "validDate d" "year (nextDay d) \<le> 9999"
  shows "validDate (nextDay d)"
proof -
  have "1 \<le> daysInMonth y m" for y m
    by (simp add: daysInMonth_def)
  with assms show ?thesis
    by (auto simp add: validDate_def nextDay_def split: if_splits)
qed

lemma year_nextDay: "year d \<le> year (nextDay d)"
  by (simp add: nextDay_def)

lemma MakeDay_epochDate: "MakeDay epochDate = 19723"
  by (simp add: MakeDay_def epochDate_def DayFromYear_def monthStart_1)

lemma days_after_epoch:
  "year ((nextDay ^^ k) epochDate) \<le> 9999 \<Longrightarrow>
   validDate ((nextDay ^^ k) epochDate) \<and> MakeDay ((nextDay ^^ k) epochDate) = 19723 + int k"
proof (induction k)
  case 0
  show ?case
    by (simp add: MakeDay_epochDate) (simp add: validDate_def epochDate_def daysInMonth_def)
next
  case (Suc k)
  let ?d = "(nextDay ^^ k) epochDate"
  from Suc.prems year_nextDay [of ?d] have "year ?d \<le> 9999" by simp
  with Suc.IH have v: "validDate ?d" and n: "MakeDay ?d = 19723 + int k" by simp_all
  from v Suc.prems have "validDate (nextDay ?d)" by (simp add: nextDay_valid)
  moreover from v have "MakeDay (nextDay ?d) = MakeDay ?d + 1"
    by (simp add: validDate_def MakeDay_nextDay)
  ultimately show ?case using n by simp
qed

lemma monthStart_step: "monthStart y m \<le> monthStart y (Suc m)"
  by (cases m) (simp_all add: monthStart_def)

lemma monthStart_mono: "a \<le> b \<Longrightarrow> monthStart y a \<le> monthStart y b"
  by (rule lift_Suc_mono_le [of "monthStart y"]) (rule monthStart_step)

lemma monthStart_13: "monthStart y 13 = 365 + (if inLeapYear y then 1 else 0)"
  by (simp add: monthStart_def upt_rec daysInMonth_def)

lemma MakeDay_year_end:
  assumes "validDate d"
  shows "MakeDay d < DayFromYear (int (Suc (year d)))"
proof -
  define l :: nat where "l = (if inLeapYear (year d) then 1 else 0)"
  from assms have m: "1 \<le> month d" "Suc (month d) \<le> 13"
    and dd: "day d \<le> daysInMonth (year d) (month d)"
    by (simp_all add: validDate_def)
  from m(2) have "monthStart (year d) (Suc (month d)) \<le> monthStart (year d) 13"
    by (rule monthStart_mono)
  with dd have "monthStart (year d) (month d) + day d \<le> 365 + l"
    by (simp add: monthStart_Suc [OF m(1)] monthStart_13 l_def)
  then have "int (monthStart (year d) (month d)) + int (day d) \<le> 365 + int l"
    by linarith
  moreover have "DayFromYear (int (Suc (year d))) = DayFromYear (int (year d)) + 365 + int l"
    using DayFromYear_Suc [of "year d"] by (simp add: l_def)
  ultimately show ?thesis
    by (simp add: MakeDay_def)
qed

lemma DayFromYear_to_epoch: "y \<le> 2024 \<Longrightarrow> DayFromYear (int y) \<le> 19723"
proof (induction y rule: inc_induct)
  case base
  show ?case by (simp add: DayFromYear_def)
next
  case (step n)
  then show ?case using DayFromYear_Suc [of n] by (simp split: if_splits)
qed

lemma MakeDay_before_epoch:
  assumes "validDate d" "year d < 2024"
  shows "MakeDay d < 19723"
proof -
  from assms(2) have "Suc (year d) \<le> 2024" by simp
  then have "DayFromYear (int (Suc (year d))) \<le> 19723"
    by (rule DayFromYear_to_epoch)
  with MakeDay_year_end [OF assms(1)] show ?thesis by simp
qed

lemma days_after:
  "validDate d \<Longrightarrow> year ((nextDay ^^ k) d) \<le> 9999 \<Longrightarrow>
   validDate ((nextDay ^^ k) d) \<and> MakeDay ((nextDay ^^ k) d) = MakeDay d + int k"
proof (induction k)
  case 0
  then show ?case by simp
next
  case (Suc k)
  let ?d = "(nextDay ^^ k) d"
  from Suc.prems year_nextDay [of ?d] have "year ?d \<le> 9999" by simp
  with Suc have v: "validDate ?d" and n: "MakeDay ?d = MakeDay d + int k" by simp_all
  from v Suc.prems have "validDate (nextDay ?d)" by (simp add: nextDay_valid)
  moreover from v have "MakeDay (nextDay ?d) = MakeDay ?d + 1"
    by (simp add: validDate_def MakeDay_nextDay)
  ultimately show ?case using n by simp
qed

lemma year_nextDay_before: "year d < 2024 \<Longrightarrow> year (nextDay d) \<le> 9999"
  by (simp add: nextDay_def)

text \<open>
  Claim C5, as amended. The dates are the valid calendar dates of the years 0 to 9999,
  which the date-only string form expresses. The day number is computed from the
  calendar date alone (the date string is the only input), is never negative, and is
  the absolute number of calendar days between the date and the epoch, 1 January 2024.
  For a date on or after the epoch whose next day is still within the year 9999, the
  next day has the day number plus one; for a date before the epoch, the next day has
  the day number minus one. The date reached from the epoch by \<open>k\<close> steps of one calendar
  day (within the year 9999) has day number \<open>k\<close>, and so has every date from which \<open>k\<close>
  steps of one calendar day reach the epoch: the count is one of whole calendar days.
\<close>

theorem getDayNumber_calendar_days:
  "(validDate d \<longrightarrow>
      (\<exists>n. getDayNumber (isoDateString d) = Some n \<and>
         n = \<bar>MakeDay d - MakeDay epochDate\<bar> \<and> 0 \<le> n \<and>
         (2024 \<le> year d \<and> year (nextDay d) \<le> 9999 \<longrightarrow>
            getDayNumber (isoDateString (nextDay d)) = Some (n + 1)) \<and>
         (year d < 2024 \<longrightarrow>
            getDayNumber (isoDateString (nextDay d)) = Some (n - 1)))) \<and>
   (year ((nextDay ^^ k) epochDate) \<le> 9999 \<longrightarrow>
      getDayNumber (isoDateString ((nextDay ^^ k) epochDate)) = Some (int k)) \<and>
   (validDate d \<and> (nextDay ^^ k) d = epochDate \<longrightarrow>
      getDayNumber (isoDateString d) = Some (int k))"
proof (intro conjI impI)
  assume v: "validDate d"
  from v have step: "MakeDay (nextDay d) = MakeDay d + 1"
    by (simp add: validDate_def MakeDay_nextDay)
  show "\<exists>n. getDayNumber (isoDateString d) = Some n \<and>
         n = \<bar>MakeDay d - MakeDay epochDate\<bar> \<and> 0 \<le> n \<and>
         (2024 \<le> year d \<and> year (nextDay d) \<le> 9999 \<longrightarrow>
            getDayNumber (isoDateString (nextDay d)) = Some (n + 1)) \<and>
         (year d < 2024 \<longrightarrow>
            getDayNumber (isoDateString (nextDay d)) = Some (n - 1))"
  proof (intro exI conjI impI)
    show "getDayNumber (isoDateString d) = Some \<bar>MakeDay d - 19723\<bar>"
      using v by (rule getDayNumber_isoDateString)
    show "\<bar>MakeDay d - 19723\<bar> = \<bar>MakeDay d - MakeDay epochDate\<bar>"
      by (simp only: MakeDay_epochDate)
    show "0 \<le> \<bar>MakeDay d - 19723\<bar>"
      by simp
  next
    assume after: "2024 \<le> year d \<and> year (nextDay d) \<le> 9999"
    with v have "validDate (nextDay d)"
      by (simp add: nextDay_valid)
    then have "getDayNumber (isoDateString (nextDay d)) = Some \<bar>MakeDay (nextDay d) - 19723\<bar>"
      by (rule getDayNumber_isoDateString)
    moreover from v after have "19723 \<le> MakeDay d"
      by (simp add: validDate_def MakeDay_from_epoch)
    ultimately show "getDayNumber (isoDateString (nextDay d)) = Some (\<bar>MakeDay d - 19723\<bar> + 1)"
      using step by simp
  next
    assume before: "year d < 2024"
    with v have "validDate (nextDay d)"
      by (simp add: nextDay_valid year_nextDay_before)
    then have "getDayNumber (isoDateString (nextDay d)) = Some \<bar>MakeDay (nextDay d) - 19723\<bar>"
      by (rule getDayNumber_isoDateString)
    moreover from v before have "MakeDay d < 19723"
      by (rule MakeDay_before_epoch)
    ultimately show "getDayNumber (isoDateString (nextDay d)) = Some (\<bar>MakeDay d - 19723\<bar> - 1)"
      using step by simp
  qed
next
  assume "year ((nextDay ^^ k) epochDate) \<le> 9999"
  from days_after_epoch [OF this]
  show "getDayNumber (isoDateString ((nextDay ^^ k) epochDate)) = Some (int k)"
    by (simp add: getDayNumber_isoDateString)
next
  assume a: "validDate d \<and> (nextDay ^^ k) d = epochDate"
  then have "year ((nextDay ^^ k) d) \<le> 9999"
    by (simp add: epochDate_def)
  with a days_after [of d k] have "MakeDay epochDate = MakeDay d + int k"
    by simp
  then have "\<bar>MakeDay d - 19723\<bar> = int k"
    by (simp add: MakeDay_epochDate)
  with a show "getDayNumber (isoDateString d) = Some (int k)"
    by (simp add: getDayNumber_isoDateString)
qed

theorem getDayNumber_calendar_days_witness:
  "validDate \<lparr>year = 2024, month = 2, day = 29\<rparr> \<and>
   getDayNumber ''2024-02-29'' = Some 59 \<and>
   getDayNumber ''2024-03-01'' = Some 60 \<and>
   (nextDay ^^ 2) epochDate = \<lparr>year = 2024, month = 1, day = 3\<rparr> \<and>
   getDayNumber ''2024-01-03'' = Some 2 \<and>
   validDate \<lparr>year = 2023, month = 12, day = 25\<rparr> \<and>
   MakeDay \<lparr>year = 2023, month = 12, day = 25\<rparr> - MakeDay epochDate = - 7 \<and>
   getDayNumber ''2023-12-25'' = Some 7 \<and>
   getDayNumber ''2023-12-26'' = Some 6 \<and>
   (nextDay ^^ 2) \<lparr>year = 2023, month = 12, day = 30\<rparr> = epochDate \<and>
   getDayNumber ''2023-12-30'' = Some 2"
proof -
  let ?d = "\<lparr>year = 2024, month = 2, day = 29\<rparr>"
  let ?b = "\<lparr>year = 2023, month = 12, day = 25\<rparr>"
  let ?c = "\<lparr>year = 2023, month = 12, day = 30\<rparr>"
  have v: "validDate ?d" "validDate ?b" "validDate ?c"
    by code_simp+
  have s: "isoDateString ?d = ''2024-02-29''" "isoDateString (nextDay ?d) = ''2024-03-01''"
    "isoDateString ?b = ''2023-12-25''" "isoDateString (nextDay ?b) = ''2023-12-26''"
    "isoDateString ?c = ''2023-12-30''"
    by code_simp+
  have y: "2024 \<le> year ?d \<and> year (nextDay ?d) \<le> 9999" "year ?b < 2024"
    by code_simp+
  have k: "(nextDay ^^ 2) epochDate = \<lparr>year = 2024, month = 1, day = 3\<rparr>"
    "(nextDay ^^ 2) ?c = epochDate"
    by (simp_all add: numeral_2_eq_2 nextDay_def epochDate_def daysInMonth_def)
  have ks: "isoDateString \<lparr>year = 2024, month = 1, day = 3\<rparr> = ''2024-01-03''"
    by code_simp
  have m: "MakeDay ?d - MakeDay epochDate = 59" "MakeDay ?b - MakeDay epochDate = - 7"
    by (simp_all add: MakeDay_def epochDate_def DayFromYear_def monthStart_def upt_rec
        daysInMonth_def inLeapYear_def)
  from getDayNumber_calendar_days [of ?d 2] v(1) y(1)
  have post: "getDayNumber ''2024-02-29'' = Some 59" "getDayNumber ''2024-03-01'' = Some 60"
    "getDayNumber ''2024-01-03'' = Some 2"
    unfolding s k ks m by auto
  from getDayNumber_calendar_days [of ?b 0] v(2) y(2)
  have pre: "getDayNumber ''2023-12-25'' = Some 7" "getDayNumber ''2023-12-26'' = Some 6"
    unfolding s m by auto
  from getDayNumber_calendar_days [of ?c 2, THEN conjunct2, THEN conjunct2] v(3) k(2)
  have count: "getDayNumber ''2023-12-30'' = Some 2"
    unfolding s by simp
  from v k m post pre count show ?thesis by simp
qed

theorem getDayNumber_before_epoch_counterexample:
  "validDate \<lparr>year = 2023, month = 12, day = 31\<rparr> \<and>
   isoDateString \<lparr>year = 2023, month = 12, day = 31\<rparr> = ''2023-12-31'' \<and>
   isoDateString (nextDay \<lparr>year = 2023, month = 12, day = 31\<rparr>) = ''2024-01-01'' \<and>
   getDayNumber ''2023-12-31'' = Some 1 \<and>
   getDayNumber ''2024-01-01'' = Some 0 \<and>
   getDayNumber ''2024-01-01'' \<noteq> Some (1 + 1)"
  by (intro conjI; code_simp)

section \<open>Theorems: puzzle selection\<close>

lemma getDayNumber_nonneg: "getDayNumber londonDate = Some n \<Longrightarrow> 0 \<le> n"
  by (auto simp add: getDayNumber_def Let_def MS_PER_DAY_def pos_imp_zdiv_nonneg_iff
      split: option.splits)

lemma arrayGet_Some_mem: "arrayGet xs i = Some x \<Longrightarrow> x \<in> set xs"
proof -
  assume a: "arrayGet xs i = Some x"
  then have "0 \<le> i" "i < int (length xs)"
    by (simp_all add: arrayGet_def split: if_splits)
  then have "nat i < length xs" by simp
  then have "xs ! nat i \<in> set xs" by (rule nth_mem)
  moreover from a have "x = xs ! nat i" by (simp add: arrayGet_def split: if_splits)
  ultimately show ?thesis by (simp only:)
qed

lemma getDailyCountry_pool:
  assumes "getDayNumber londonDate = Some n"
    and "filter (\<lambda>c. ctype c = Sovereign) COUNTRIES \<noteq> []"
  shows "getDailyCountry COUNTRIES londonDate =
     Some (filter (\<lambda>c. ctype c = Sovereign) COUNTRIES
        ! (nat n mod length (filter (\<lambda>c. ctype c = Sovereign) COUNTRIES)))"
proof -
  let ?pool = "filter (\<lambda>c. ctype c = Sovereign) COUNTRIES"
  from assms(2) have len: "0 < int (length ?pool)" by simp
  from assms(1) have n: "0 \<le> n" by (rule getDayNumber_nonneg)
  have "0 \<le> n mod int (length ?pool)" "n mod int (length ?pool) < int (length ?pool)"
    using len by simp_all
  moreover have "nat (n mod int (length ?pool)) = nat n mod length ?pool"
    using n by (simp add: nat_mod_distrib)
  ultimately show ?thesis
    using assms by (simp add: getDailyCountry_def arrayGet_def Let_def)
qed

lemma getDailyCountry_Some:
  assumes "getDailyCountry COUNTRIES londonDate = Some c"
  shows "ctype c = Sovereign \<and> c \<in> set COUNTRIES"
proof -
  let ?pool = "filter (\<lambda>c. ctype c = Sovereign) COUNTRIES"
  from assms obtain i where "arrayGet ?pool i = Some c"
    by (auto simp add: getDailyCountry_def Let_def split: option.splits if_splits)
  then have "c \<in> set ?pool"
    by (rule arrayGet_Some_mem)
  then show ?thesis by simp
qed

text \<open>
  Claim C3. The daily puzzle is the entry at index (day number) mod (pool length) of
  the pool of Sovereign entries, the pool being the reference list filtered in its own
  order. Two readings of the clock with the same day number give the same country over
  the same reference list, and every country returned is a Sovereign entry of the
  reference list. (The reference list must hold at least one Sovereign entry for a
  country to be returned.)
\<close>

theorem getDailyCountry_deterministic_sovereign:
  "(getDayNumber londonDate = Some n \<and> filter (\<lambda>c. ctype c = Sovereign) COUNTRIES \<noteq> [] \<longrightarrow>
      getDailyCountry COUNTRIES londonDate =
        Some (filter (\<lambda>c. ctype c = Sovereign) COUNTRIES
           ! (nat n mod length (filter (\<lambda>c. ctype c = Sovereign) COUNTRIES)))) \<and>
   subseq (filter (\<lambda>c. ctype c = Sovereign) COUNTRIES) COUNTRIES \<and>
   (getDayNumber londonDate = getDayNumber londonDate' \<longrightarrow>
      getDailyCountry COUNTRIES londonDate = getDailyCountry COUNTRIES londonDate') \<and>
   (getDailyCountry COUNTRIES londonDate = Some c \<longrightarrow>
      ctype c = Sovereign \<and> c \<in> set COUNTRIES)"
proof (intro conjI impI)
  assume "getDayNumber londonDate = Some n \<and> filter (\<lambda>c. ctype c = Sovereign) COUNTRIES \<noteq> []"
  then show "getDailyCountry COUNTRIES londonDate =
        Some (filter (\<lambda>c. ctype c = Sovereign) COUNTRIES
           ! (nat n mod length (filter (\<lambda>c. ctype c = Sovereign) COUNTRIES)))"
    by (simp add: getDailyCountry_pool)
next
  show "subseq (filter (\<lambda>c. ctype c = Sovereign) COUNTRIES) COUNTRIES"
    by simp
next
  assume "getDayNumber londonDate = getDayNumber londonDate'"
  then show "getDailyCountry COUNTRIES londonDate = getDailyCountry COUNTRIES londonDate'"
    by (simp add: getDailyCountry_def)
next
  assume "getDailyCountry COUNTRIES londonDate = Some c"
  then show "ctype c = Sovereign" and "c \<in> set COUNTRIES"
    by (simp_all add: getDailyCountry_Some)
qed

theorem getDailyCountry_deterministic_sovereign_witness:
  "getDayNumber ''2024-02-13'' = Some 43 \<and>
   filter (\<lambda>c. ctype c = Sovereign) sampleCountries = [france, japan] \<and>
   getDailyCountry sampleCountries ''2024-02-13'' = Some japan \<and>
   ctype japan = Sovereign"
proof -
  have n: "getDayNumber ''2024-02-13'' = Some 43"
    by code_simp
  have pool: "filter (\<lambda>c. ctype c = Sovereign) sampleCountries = [france, japan]"
    by (simp add: sampleCountries_def france_def gibraltar_def japan_def)
  have idx: "[france, japan] ! (nat 43 mod length [france, japan]) = japan"
    by code_simp
  from getDailyCountry_deterministic_sovereign [where londonDate = "''2024-02-13''" and n = 43
      and COUNTRIES = sampleCountries and londonDate' = "''2024-02-13''" and c = japan] n
  have "getDailyCountry sampleCountries ''2024-02-13'' = Some japan" "ctype japan = Sovereign"
    unfolding pool idx by simp_all
  with n pool show ?thesis by simp
qed

lemma filteredPool_conjunctive:
  assumes "excludeCode = Some [] \<longrightarrow> (\<forall>c\<in>set COUNTRIES. code c \<noteq> [])"
  shows "filteredPool COUNTRIES flt excludeCode =
     filter (\<lambda>c. matchesFilter flt c \<and> notExcluded excludeCode c) COUNTRIES"
proof -
  have cont: "(if filter_continent flt \<noteq> AllContinents
        then filter (\<lambda>c. continent c = filter_continent flt) xs else xs) =
      filter (\<lambda>c. filter_continent flt = AllContinents \<or> continent c = filter_continent flt) xs"
    for xs :: "Country list" by simp
  have diff: "(if filter_difficulty flt \<noteq> Mixed
        then filter (\<lambda>c. Tier (difficulty c) = filter_difficulty flt) xs else xs) =
      filter (\<lambda>c. filter_difficulty flt = Mixed \<or> filter_difficulty flt = Tier (difficulty c)) xs"
    for xs :: "Country list" by (auto intro: filter_cong)
  have kind: "(if filter_type flt \<noteq> AllTypes
        then filter (\<lambda>c. Kind (ctype c) = filter_type flt) xs else xs) =
      filter (\<lambda>c. filter_type flt = AllTypes \<or> filter_type flt = Kind (ctype c)) xs"
    for xs :: "Country list" by (auto intro: filter_cong)
  have excl: "(case excludeCode of None \<Rightarrow> xs
        | Some e \<Rightarrow> if e \<noteq> [] then filter (\<lambda>c. code c \<noteq> e) xs else xs) =
      filter (notExcluded excludeCode) xs"
    if "set xs \<subseteq> set COUNTRIES" for xs :: "Country list"
  proof (cases excludeCode)
    case None
    then show ?thesis by (simp add: notExcluded_def)
  next
    case (Some e)
    show ?thesis
    proof (cases "e = []")
      case True
      with Some assms that have "\<forall>c\<in>set xs. code c \<noteq> []" by auto
      with Some True show ?thesis by (simp add: notExcluded_def)
    next
      case False
      have "notExcluded (Some e) = (\<lambda>c. code c \<noteq> e)"
        by (simp add: notExcluded_def fun_eq_iff)
      with Some False show ?thesis by simp
    qed
  qed
  have sub: "set (filter P (filter Q (filter R COUNTRIES))) \<subseteq> set COUNTRIES" for P Q R
    by auto
  show ?thesis
    unfolding filteredPool_def Let_def cont diff kind excl [OF sub]
    by (auto simp add: matchesFilter_def intro: filter_cong)
qed

lemma arrayGet_random:
  assumes "xs \<noteq> []" "0 \<le> random" "random < 1"
  shows "\<exists>x\<in>set xs. arrayGet xs \<lfloor>random * real (length xs)\<rfloor> = Some x"
proof -
  from assms(1) have n: "0 < real (length xs)" by simp
  with assms(2) have lo: "0 \<le> \<lfloor>random * real (length xs)\<rfloor>" by simp
  from n assms(3) have "random * real (length xs) < real (length xs)" by simp
  then have hi: "\<lfloor>random * real (length xs)\<rfloor> < int (length xs)"
    by (simp add: floor_less_iff)
  then have "nat \<lfloor>random * real (length xs)\<rfloor> < length xs"
    by (simp only: nat_less_iff [OF lo])
  then have "xs ! nat \<lfloor>random * real (length xs)\<rfloor> \<in> set xs"
    by (rule nth_mem)
  with lo hi show ?thesis
    by (simp add: arrayGet_def)
qed

text \<open>
  Claim C4. The pool of the random selection holds the entries of the reference list
  that satisfy the continent, the difficulty and the type selector together and do not
  carry the excluded code. With an empty pool the function returns an entry of the
  whole reference list, and with a pool that is not empty an entry of the pool; it
  raises nothing. (The reference list is not empty, its codes are not empty strings,
  and the random number lies in \<open>[0, 1)\<close>.)
\<close>

theorem getRandomCountryFiltered_pool_or_fallback:
  assumes "COUNTRIES \<noteq> []" and "\<forall>c\<in>set COUNTRIES. code c \<noteq> []"
    and "0 \<le> random" and "random < 1"
  shows "filteredPool COUNTRIES flt excludeCode =
       filter (\<lambda>c. matchesFilter flt c \<and> notExcluded excludeCode c) COUNTRIES \<and>
     (filteredPool COUNTRIES flt excludeCode = [] \<longrightarrow>
        (\<exists>c\<in>set COUNTRIES.
           getRandomCountryFiltered COUNTRIES random flt excludeCode = Some c)) \<and>
     (filteredPool COUNTRIES flt excludeCode \<noteq> [] \<longrightarrow>
        (\<exists>c\<in>set (filteredPool COUNTRIES flt excludeCode).
           getRandomCountryFiltered COUNTRIES random flt excludeCode = Some c))"
proof (intro conjI impI)
  show "filteredPool COUNTRIES flt excludeCode =
       filter (\<lambda>c. matchesFilter flt c \<and> notExcluded excludeCode c) COUNTRIES"
    using assms(2) by (simp add: filteredPool_conjunctive)
next
  assume "filteredPool COUNTRIES flt excludeCode = []"
  then show "\<exists>c\<in>set COUNTRIES.
      getRandomCountryFiltered COUNTRIES random flt excludeCode = Some c"
    using arrayGet_random [OF assms(1,3,4)] by (simp add: getRandomCountryFiltered_def)
next
  assume ne: "filteredPool COUNTRIES flt excludeCode \<noteq> []"
  from arrayGet_random [OF ne assms(3,4)] ne
  show "\<exists>c\<in>set (filteredPool COUNTRIES flt excludeCode).
      getRandomCountryFiltered COUNTRIES random flt excludeCode = Some c"
    by (simp add: getRandomCountryFiltered_def Let_def)
qed


theorem getRandomCountryFiltered_pool_or_fallback_witness:
  "filteredPool sampleCountries
       \<lparr>filter_continent = Oceania, filter_difficulty = Mixed, filter_type = AllTypes\<rparr> None = [] \<and>
   getRandomCountryFiltered sampleCountries (1 / 2)
       \<lparr>filter_continent = Oceania, filter_difficulty = Mixed, filter_type = AllTypes\<rparr> None
     = Some gibraltar \<and>
   filteredPool sampleCountries
       \<lparr>filter_continent = Europe, filter_difficulty = Mixed, filter_type = AllTypes\<rparr>
       (Some ''FR'') = [gibraltar] \<and>
   getRandomCountryFiltered sampleCountries (1 / 2)
       \<lparr>filter_continent = Europe, filter_difficulty = Mixed, filter_type = AllTypes\<rparr>
       (Some ''FR'') = Some gibraltar"
proof -
  let ?oceania = "\<lparr>filter_continent = Oceania, filter_difficulty = Mixed, filter_type = AllTypes\<rparr>"
  let ?europe = "\<lparr>filter_continent = Europe, filter_difficulty = Mixed, filter_type = AllTypes\<rparr>"
  have data: "sampleCountries \<noteq> []" "\<forall>c\<in>set sampleCountries. code c \<noteq> []"
    by (simp_all add: sampleCountries_def france_def gibraltar_def japan_def)
  have r: "(0::real) \<le> 1 / 2" "(1::real) / 2 < 1"
    by simp_all
  have empty: "filteredPool sampleCountries ?oceania None = []"
    by (simp add: filteredPool_def sampleCountries_def france_def gibraltar_def japan_def)
  have fallback: "getRandomCountryFiltered sampleCountries (1 / 2) ?oceania None = Some gibraltar"
    by (simp add: getRandomCountryFiltered_def empty)
      (simp add: sampleCountries_def arrayGet_def)
  have pool: "filteredPool sampleCountries ?europe (Some ''FR'') = [gibraltar]"
    by (simp add: filteredPool_def sampleCountries_def france_def gibraltar_def japan_def)
  from getRandomCountryFiltered_pool_or_fallback [OF data r, of ?europe "Some ''FR''"]
  have "getRandomCountryFiltered sampleCountries (1 / 2) ?europe (Some ''FR'') = Some gibraltar"
    unfolding pool by simp
  with empty fallback pool show ?thesis by simp
qed

lemma arrayGet_reachable:
  assumes "c \<in> set xs"
  shows "\<exists>r. 0 \<le> r \<and> r < 1 \<and> arrayGet xs \<lfloor>r * real (length xs)\<rfloor> = Some c"
proof -
  from assms obtain i where i: "i < length xs" "xs ! i = c"
    by (auto simp add: in_set_conv_nth)
  let ?r = "real i / real (length xs)"
  from i(1) have "real (length xs) \<noteq> 0" by auto
  then have "?r * real (length xs) = real i" by simp
  then have "\<lfloor>?r * real (length xs)\<rfloor> = int i" by simp
  with i have "arrayGet xs \<lfloor>?r * real (length xs)\<rfloor> = Some c"
    by (simp add: arrayGet_def)
  moreover from assms have "xs \<noteq> []" by auto
  with i(1) have "0 < real (length xs)" "real i < real (length xs)" by simp_all
  then have "0 \<le> ?r" "?r < 1" by (simp_all add: divide_less_eq_1_pos)
  ultimately show ?thesis by blast
qed

text \<open>
  Claim C9. When the filtered pool is empty, the result is read from the whole
  reference list at the random index, whatever the excluded code: the exclusion is not
  applied again. So whenever the pool is empty for the code of an entry of the list as
  the excluded code, some random number makes the function return that very entry; and
  there are a reference list, a filter and an excluded code for which the returned
  country carries the excluded code.
\<close>

theorem getRandomCountryFiltered_fallback_returns_excluded:
  "(filteredPool COUNTRIES flt excludeCode = [] \<longrightarrow>
      getRandomCountryFiltered COUNTRIES random flt excludeCode =
        arrayGet COUNTRIES \<lfloor>random * real (length COUNTRIES)\<rfloor>) \<and>
   (c \<in> set COUNTRIES \<and> filteredPool COUNTRIES flt (Some (code c)) = [] \<longrightarrow>
      (\<exists>r. 0 \<le> r \<and> r < 1 \<and>
         getRandomCountryFiltered COUNTRIES r flt (Some (code c)) = Some c)) \<and>
   (\<exists>e r d. 0 \<le> r \<and> r < 1 \<and>
      getRandomCountryFiltered sampleCountries r
        \<lparr>filter_continent = Europe, filter_difficulty = Tier Easy, filter_type = Kind Sovereign\<rparr>
        (Some e) = Some d \<and> code d = e)"
proof (intro conjI impI)
  assume "filteredPool COUNTRIES flt excludeCode = []"
  then show "getRandomCountryFiltered COUNTRIES random flt excludeCode =
      arrayGet COUNTRIES \<lfloor>random * real (length COUNTRIES)\<rfloor>"
    by (simp add: getRandomCountryFiltered_def)
next
  assume "c \<in> set COUNTRIES \<and> filteredPool COUNTRIES flt (Some (code c)) = []"
  then show "\<exists>r. 0 \<le> r \<and> r < 1 \<and>
      getRandomCountryFiltered COUNTRIES r flt (Some (code c)) = Some c"
    using arrayGet_reachable [of c COUNTRIES] by (simp add: getRandomCountryFiltered_def)
next
  let ?flt = "\<lparr>filter_continent = Europe, filter_difficulty = Tier Easy, filter_type = Kind Sovereign\<rparr>"
  have "filteredPool sampleCountries ?flt (Some ''FR'') = []"
    by (simp add: filteredPool_def sampleCountries_def france_def gibraltar_def japan_def)
  then have "getRandomCountryFiltered sampleCountries 0 ?flt (Some ''FR'') = Some france"
    by (simp add: getRandomCountryFiltered_def) (simp add: sampleCountries_def arrayGet_def)
  moreover have "code france = ''FR''"
    by (simp add: france_def)
  ultimately show "\<exists>e r d. 0 \<le> r \<and> r < 1 \<and>
      getRandomCountryFiltered sampleCountries r ?flt (Some e) = Some d \<and> code d = e"
    by (intro exI [of _ "''FR''"] exI [of _ 0] exI [of _ france]) simp
qed

theorem getRandomCountryFiltered_fallback_returns_excluded_witness:
  "france \<in> set sampleCountries \<and>
   filteredPool sampleCountries
       \<lparr>filter_continent = Europe, filter_difficulty = Tier Easy, filter_type = Kind Sovereign\<rparr>
       (Some (code france)) = [] \<and>
   (\<exists>r. 0 \<le> r \<and> r < 1 \<and>
      getRandomCountryFiltered sampleCountries r
        \<lparr>filter_continent = Europe, filter_difficulty = Tier Easy, filter_type = Kind Sovereign\<rparr>
        (Some (code france)) = Some france)"
proof -
  let ?flt = "\<lparr>filter_continent = Europe, filter_difficulty = Tier Easy, filter_type = Kind Sovereign\<rparr>"
  have mem: "france \<in> set sampleCountries"
    by (simp add: sampleCountries_def)
  have empty: "filteredPool sampleCountries ?flt (Some (code france)) = []"
    by (simp add: filteredPool_def sampleCountries_def france_def gibraltar_def japan_def)
  from getRandomCountryFiltered_fallback_returns_excluded
    [where c = france and COUNTRIES = sampleCountries and flt = ?flt
      and excludeCode = "Some (code france)" and random = 0] mem empty
  show ?thesis by blast
qed

section \<open>Theorems: the share text\<close>

lemma foldl_rows:
  "foldl (\<lambda>message guess. if P guess then message @ a else message @ b) m gs =
     m @ concat (map (\<lambda>guess. if P guess then a else b) gs)"
  by (induction gs arbitrary: m) simp_all

lemma splitLines_not_Nil: "splitLines s \<noteq> []"
  by (induction s) (simp_all split: list.splits)

lemma splitLines_line:
  "CHR 0x0A \<notin> set l \<Longrightarrow> splitLines (l @ CHR 0x0A # rest) = l # splitLines rest"
  by (induction l) (auto split: list.splits)

lemma splitLines_last: "CHR 0x0A \<notin> set l \<Longrightarrow> splitLines l = [l]"
  by (induction l) (auto split: list.splits)

lemma splitLines_rows:
  assumes "\<And>g. CHR 0x0A \<notin> set (line g)"
  shows "splitLines (concat (map (\<lambda>g. line g @ [CHR 0x0A]) gs) @ rest) =
     map line gs @ splitLines rest"
  using assms by (induction gs) (simp_all add: splitLines_line)

lemma digitChar_not_newline: "n < 10 \<Longrightarrow> digitChar n \<noteq> CHR 0x0A"
proof
  assume "n < 10" and "digitChar n = CHR 0x0A"
  then have "of_char (digitChar n) = (of_char (CHR 0x0A) :: nat)" by simp
  with \<open>n < 10\<close> show False by (simp add: digitChar_def)
qed

lemma natToString_no_newline: "CHR 0x0A \<notin> set (natToString n)"
proof (induction n rule: natToString.induct)
  case (1 n)
  show ?case
  proof (cases "n < 10")
    case True
    then show ?thesis
      using digitChar_not_newline [of n] by (subst natToString.simps) auto
  next
    case False
    with 1 have "CHR 0x0A \<notin> set (natToString (n div 10))" by simp
    moreover have "digitChar (n mod 10) \<noteq> CHR 0x0A"
      by (rule digitChar_not_newline) simp
    ultimately show ?thesis
      using False by (subst natToString.simps) auto
  qed
qed

lemma numberToString_no_newline: "CHR 0x0A \<notin> set (numberToString v)"
  by (cases v) (simp_all add: numberToString_def natToString_no_newline)

lemma generateShareGrid_shape:
  "generateShareGrid lc d gs t w isInf =
     (if isInf then globe @ '' Shapely (Infinite Mode) '' @ pin
      else globe @ '' Shapely No. '' @ numberToString (getDayNumber d) @ '' '' @ pin)
     @ CHR 0x0A #
     (if w then ''Wow! '' @ rainbow @ '' I guessed the right country in ''
                  @ natToString (length gs) @ ''/6 tries! '' @ trophy @ sparkles
      else ''Ouch! '' @ sweatSmile @ '' Today'' @ [CHR 0x27]
                  @ ''s shape was a real mystery! X/6 '' @ dash @ cloud)
     @ CHR 0x0A # [] @ CHR 0x0A #
     concat (map (\<lambda>g. (if lc g = lc t then concat (replicate 5 greenSquare)
                         else concat (replicate 5 redSquare)) @ [CHR 0x0A]) gs)
     @ [] @ CHR 0x0A # (''Come play this game too! '' @ worldMap @ highVoltage @ rocket)
     @ CHR 0x0A # ''https://geoshapely.netlify.app/''"
proof -
  have rows: "(\<lambda>g. if lc g = lc t then greenRow else redRow) =
      (\<lambda>g. (if lc g = lc t then concat (replicate 5 greenSquare)
                else concat (replicate 5 redSquare)) @ [CHR 0x0A])"
    by (simp add: fun_eq_iff greenRow_def redRow_def newline_def numeral_eq_Suc)
  show ?thesis
    unfolding generateShareGrid_def Let_def foldl_rows rows
    by (simp add: newline_def shareFooter_def)
qed

lemma share_sample:
  "splitLines (generateShareGrid asciiLower ''2024-02-12'' [''Spain'', ''Germany'', ''France'']
       ''France'' True False) =
     [globe @ '' Shapely No. '' @ ''42'' @ '' '' @ pin,
      ''Wow! '' @ rainbow @ '' I guessed the right country in '' @ ''3/6'' @ '' tries! ''
        @ trophy @ sparkles,
      [],
      concat (replicate 5 redSquare),
      concat (replicate 5 redSquare),
      concat (replicate 5 greenSquare),
      [],
      ''Come play this game too! '' @ worldMap @ highVoltage @ rocket,
      ''https://geoshapely.netlify.app/'']"
  by code_simp

lemma squares_differ: "concat (replicate 5 greenSquare) \<noteq> concat (replicate 5 redSquare)"
  by code_simp

lemma no_newline_parts:
  "CHR 0x0A \<notin> set (globe @ '' Shapely (Infinite Mode) '' @ pin)"
  "CHR 0x0A \<notin> set (globe @ '' Shapely No. '' @ numberToString v @ '' '' @ pin)"
  "CHR 0x0A \<notin> set (''Wow! '' @ rainbow @ '' I guessed the right country in ''
                  @ natToString n @ ''/6 tries! '' @ trophy @ sparkles)"
  "CHR 0x0A \<notin> set (''Ouch! '' @ sweatSmile @ '' Today'' @ [CHR 0x27]
                  @ ''s shape was a real mystery! X/6 '' @ dash @ cloud)"
  "CHR 0x0A \<notin> set (concat (replicate 5 greenSquare))"
  "CHR 0x0A \<notin> set (concat (replicate 5 redSquare))"
  "CHR 0x0A \<notin> set (''Come play this game too! '' @ worldMap @ highVoltage @ rocket)"
  "CHR 0x0A \<notin> set ''https://geoshapely.netlify.app/''"
  by (simp_all add: globe_def pin_def rainbow_def trophy_def sparkles_def sweatSmile_def
      dash_def cloud_def greenSquare_def redSquare_def worldMap_def highVoltage_def rocket_def
      numberToString_no_newline natToString_no_newline)

lemma generateShareGrid_splitLines:
  "splitLines (generateShareGrid lc d gs t w isInf) =
     [if isInf then globe @ '' Shapely (Infinite Mode) '' @ pin
      else globe @ '' Shapely No. '' @ numberToString (getDayNumber d) @ '' '' @ pin,
      if w then ''Wow! '' @ rainbow @ '' I guessed the right country in ''
                  @ natToString (length gs) @ ''/6 tries! '' @ trophy @ sparkles
      else ''Ouch! '' @ sweatSmile @ '' Today'' @ [CHR 0x27]
                  @ ''s shape was a real mystery! X/6 '' @ dash @ cloud,
      []] @
     map (\<lambda>g. if lc g = lc t then concat (replicate 5 greenSquare)
              else concat (replicate 5 redSquare)) gs @
     [[], ''Come play this game too! '' @ worldMap @ highVoltage @ rocket,
      ''https://geoshapely.netlify.app/'']"
proof -
  let ?title = "if isInf then globe @ '' Shapely (Infinite Mode) '' @ pin
      else globe @ '' Shapely No. '' @ numberToString (getDayNumber d) @ '' '' @ pin"
  let ?outcome = "if w then ''Wow! '' @ rainbow @ '' I guessed the right country in ''
                  @ natToString (length gs) @ ''/6 tries! '' @ trophy @ sparkles
      else ''Ouch! '' @ sweatSmile @ '' Today'' @ [CHR 0x27]
                  @ ''s shape was a real mystery! X/6 '' @ dash @ cloud"
  let ?line = "\<lambda>g. if lc g = lc t then concat (replicate 5 greenSquare)
              else concat (replicate 5 redSquare)"
  let ?play = "''Come play this game too! '' @ worldMap @ highVoltage @ rocket"
  let ?url = "''https://geoshapely.netlify.app/''"
  have t: "CHR 0x0A \<notin> set ?title" and o: "CHR 0x0A \<notin> set ?outcome"
    by (cases isInf, simp_all only: if_True if_False no_newline_parts not_False_eq_True)
      (cases w, simp_all only: if_True if_False no_newline_parts not_False_eq_True)
  have l: "\<And>g. CHR 0x0A \<notin> set (?line g)"
    by (simp only: no_newline_parts not_False_eq_True split: if_split) simp
  have e: "CHR 0x0A \<notin> set ([]::string)"
    by simp
  have "splitLines (?title @ CHR 0x0A # ?outcome @ CHR 0x0A # [] @ CHR 0x0A #
      concat (map (\<lambda>g. ?line g @ [CHR 0x0A]) gs) @ [] @ CHR 0x0A # ?play @ CHR 0x0A # ?url) =
    ?title # ?outcome # [] # map ?line gs @ [] # ?play # [?url]"
    by (simp only: splitLines_line [OF t] splitLines_line [OF o] splitLines_line [OF e]
        splitLines_rows [of ?line, OF l] splitLines_line [OF no_newline_parts(7)]
        splitLines_last [OF no_newline_parts(8)])
  then show ?thesis
    by (simp only: generateShareGrid_shape append_Cons append_Nil)
qed

lemma day_42: "getDayNumber ''2024-02-12'' = Some 42"
  by code_simp

text \<open>
  Claim C6. The lines of the share text are: a title line, an outcome line, an empty
  line, one line per guess in guess order, an empty line and the two fixed lines of
  the footer. A guess line is the row of green squares when the lower-cased guess
  equals the lower-cased target name and the row of red squares otherwise, and the two
  rows differ; the text ends with the fixed footer. For the daily-mode win on day 42
  with the guesses Spain, Germany, France and the target France, the title line holds
  42, the outcome line holds 3/6, and the three guess lines are red, red, green.
\<close>

theorem generateShareGrid_lines:
  "splitLines (generateShareGrid lc d gs t w isInf) =
     [if isInf then globe @ '' Shapely (Infinite Mode) '' @ pin
      else globe @ '' Shapely No. '' @ numberToString (getDayNumber d) @ '' '' @ pin,
      if w then ''Wow! '' @ rainbow @ '' I guessed the right country in ''
                  @ natToString (length gs) @ ''/6 tries! '' @ trophy @ sparkles
      else ''Ouch! '' @ sweatSmile @ '' Today'' @ [CHR 0x27]
                  @ ''s shape was a real mystery! X/6 '' @ dash @ cloud,
      []] @
     map (\<lambda>g. if lc g = lc t then concat (replicate 5 greenSquare)
              else concat (replicate 5 redSquare)) gs @
     [[], ''Come play this game too! '' @ worldMap @ highVoltage @ rocket,
      ''https://geoshapely.netlify.app/''] \<and>
   concat (replicate 5 greenSquare) \<noteq> concat (replicate 5 redSquare) \<and>
   suffix shareFooter (generateShareGrid lc d gs t w isInf) \<and>
   getDayNumber ''2024-02-12'' = Some 42 \<and>
   splitLines (generateShareGrid asciiLower ''2024-02-12'' [''Spain'', ''Germany'', ''France'']
       ''France'' True False) =
     [globe @ '' Shapely No. '' @ ''42'' @ '' '' @ pin,
      ''Wow! '' @ rainbow @ '' I guessed the right country in '' @ ''3/6'' @ '' tries! ''
        @ trophy @ sparkles,
      [],
      concat (replicate 5 redSquare),
      concat (replicate 5 redSquare),
      concat (replicate 5 greenSquare),
      [],
      ''Come play this game too! '' @ worldMap @ highVoltage @ rocket,
      ''https://geoshapely.netlify.app/'']"
proof (intro conjI)
  show "suffix shareFooter (generateShareGrid lc d gs t w isInf)"
    unfolding generateShareGrid_def Let_def suffix_def by (intro exI) (rule refl)
qed (rule generateShareGrid_splitLines squares_differ day_42 share_sample)+

text \<open>
  Claim C7. The share text is a function of its arguments and of the day number that
  \<open>generateShareGrid\<close> reads from the clock: two calls with the same guesses, target
  name, win flag and mode flag, made at clock readings with the same day number, give
  the same text, character for character; in infinite mode the clock does not matter
  at all.
\<close>

theorem generateShareGrid_deterministic:
  "(getDayNumber londonDate = getDayNumber londonDate' \<longrightarrow>
      generateShareGrid lc londonDate gs t w isInf =
        generateShareGrid lc londonDate' gs t w isInf) \<and>
   generateShareGrid lc londonDate gs t w True = generateShareGrid lc londonDate' gs t w True"
  by (simp add: generateShareGrid_def)

theorem generateShareGrid_deterministic_witness:
  "''2024-01-02'' \<noteq> ''2023-12-31'' \<and>
   getDayNumber ''2024-01-02'' = Some 1 \<and>
   getDayNumber ''2023-12-31'' = Some 1 \<and>
   generateShareGrid asciiLower ''2024-01-02'' [''France''] ''France'' True False =
     generateShareGrid asciiLower ''2023-12-31'' [''France''] ''France'' True False"
proof -
  have n: "getDayNumber ''2024-01-02'' = Some 1" "getDayNumber ''2023-12-31'' = Some 1"
    by code_simp+
  from generateShareGrid_deterministic [where londonDate = "''2024-01-02''"
      and londonDate' = "''2023-12-31''" and lc = asciiLower and gs = "[''France'']"
      and t = "''France''" and w = True and isInf = False] n
  show ?thesis by simp
qed

section \<open>Theorems: the compass arrow\<close>














end
